theory Spec2Isabelle
  imports Complex_Main
begin

section \<open>Diabetes prediction service: the data model\<close>

text \<open>
  The service of \<^verbatim>\<open>api.py\<close> wraps a trained Keras classifier behind four HTTP
  operations; \<^verbatim>\<open>dl_app.py\<close> is a form that runs the same single-record flow.
  Probabilities and field values are Python floats; they are embedded as \<open>real\<close>, so
  every comparison below is the exact one (rounding of the float arithmetic is not part
  of this development). The classifier is an opaque artifact: it is a parameter of every
  operation, a function from the data frame it is given to either the exception it
  raises or the two-dimensional array it returns.
\<close>

subsection \<open>Exceptions\<close>

text \<open>
  The exception classes the two handlers tell apart. \<open>OtherException\<close> stands for an
  instance of \<^verbatim>\<open>Exception\<close> of any other class. Every constructor carries the text
  that \<^verbatim>\<open>str(e)\<close> returns.
\<close>

datatype py_exception =
    FileNotFoundError string
  | ValueError string
  | IndexError string
  | RuntimeError string
  | OtherException string

fun str :: "py_exception \<Rightarrow> string" where
  "str (FileNotFoundError msg) = msg"
| "str (ValueError msg) = msg"
| "str (IndexError msg) = msg"
| "str (RuntimeError msg) = msg"
| "str (OtherException msg) = msg"

subsection \<open>Request and response schemas\<close>

text \<open>\<^verbatim>\<open>class PredictionInput(BaseModel)\<close>: eight required float fields.\<close>

record PredictionInput =
  pregnancies :: real
  glucose :: real
  blood_pressure :: real
  skin_thickness :: real
  insulin :: real
  bmi :: real
  diabetes_pedigree_function :: real
  age :: real

text \<open>\<^verbatim>\<open>class PredictionOutput(BaseModel)\<close>.\<close>

record PredictionOutput =
  prediction :: int
  probability :: real
  confidence :: string

text \<open>
  One entry of the batch result: the dictionary with the keys \<^verbatim>\<open>patient_id\<close>,
  \<^verbatim>\<open>prediction\<close>, \<^verbatim>\<open>probability\<close> and \<^verbatim>\<open>confidence\<close>. It is the single
  output extended by the identifier.
\<close>

record BatchEntry = PredictionOutput +
  patient_id :: nat

text \<open>The envelope \<^verbatim>\<open>{"total_patients": ..., "predictions": ...}\<close>.\<close>

record BatchOutput =
  total_patients :: nat
  predictions :: "BatchEntry list"

text \<open>The example of \<^verbatim>\<open>PredictionInput.Config.json_schema_extra\<close>.\<close>

definition example_input :: PredictionInput where
  "example_input =
     \<lparr>pregnancies = 3, glucose = 117, blood_pressure = 72, skin_thickness = 29,
      insulin = 125, bmi = 32.3, diabetes_pedigree_function = 0.3725, age = 29\<rparr>"

subsection \<open>Field constraints\<close>

text \<open>
  The \<^verbatim>\<open>Field(..., ge=lo, le=hi)\<close> declarations of \<^verbatim>\<open>PredictionInput\<close>, in the order
  of the class body: name, field, \<^verbatim>\<open>ge\<close>, \<^verbatim>\<open>le\<close>.
\<close>

definition field_constraints :: "(string \<times> (PredictionInput \<Rightarrow> real) \<times> real \<times> real) list" where
  "field_constraints =
     [(''pregnancies'', pregnancies, 0, 17),
      (''glucose'', glucose, 44, 199),
      (''blood_pressure'', blood_pressure, 24, 122),
      (''skin_thickness'', skin_thickness, 7, 99),
      (''insulin'', insulin, 14, 846),
      (''bmi'', bmi, 18.2, 67.1),
      (''diabetes_pedigree_function'', diabetes_pedigree_function, 0.078, 2.42),
      (''age'', age, 21, 81)]"

text \<open>The constraint a value violated, with its bound.\<close>

datatype violation = greater_than_equal real | less_than_equal real

text \<open>
  A field declared with \<^verbatim>\<open>ge\<close> and \<^verbatim>\<open>le\<close> is accepted when \<open>lo \<le> v\<close> and
  \<open>v \<le> hi\<close>; the lower bound is checked first.
\<close>

definition check_field :: "PredictionInput \<Rightarrow> string \<times> (PredictionInput \<Rightarrow> real) \<times> real \<times> real
    \<Rightarrow> (string \<times> violation) list" where
  "check_field x c =
     (case c of (name, field, lo, hi) \<Rightarrow>
        if \<not> lo \<le> field x then [(name, greater_than_equal lo)]
        else if \<not> field x \<le> hi then [(name, less_than_equal hi)]
        else [])"

text \<open>
  Validation of one record: every field is checked, and the errors of all offending
  fields are collected, each naming its field.
\<close>

definition validate :: "PredictionInput \<Rightarrow> (string \<times> violation) list" where
  "validate x = concat (map (check_field x) field_constraints)"

subsection \<open>The model handle and the data frame\<close>

record DataFrame =
  columns :: "string list"
  rows :: "real list list"

type_synonym keras_model = "DataFrame \<Rightarrow> py_exception + real list list"

text \<open>The log of the data frames the model has been invoked on, oldest first.\<close>

type_synonym call_log = "DataFrame list"

definition model_predict ::
    "keras_model \<Rightarrow> DataFrame \<Rightarrow> call_log \<Rightarrow> (py_exception + real list list) \<times> call_log" where
  "model_predict model df calls = (model df, calls @ [df])"

text \<open>The keys of the dictionary both handlers build from a record, in order.\<close>

definition feature_names :: "string list" where
  "feature_names =
     [''Pregnancies'', ''Glucose'', ''BloodPressure'', ''SkinThickness'', ''Insulin'',
      ''BMI'', ''DiabetesPedigreeFunction'', ''Age'']"

text \<open>The values of that dictionary.\<close>

definition patient_row :: "PredictionInput \<Rightarrow> real list" where
  "patient_row p =
     [pregnancies p, glucose p, blood_pressure p, skin_thickness p, insulin p, bmi p,
      diabetes_pedigree_function p, age p]"

text \<open>
  \<^verbatim>\<open>a[0]\<close> on an array: an empty axis raises \<^verbatim>\<open>IndexError\<close>.
\<close>

definition first_item :: "'a list \<Rightarrow> py_exception + 'a" where
  "first_item xs =
     (case xs of
        [] \<Rightarrow> Inl (IndexError ''index 0 is out of bounds for axis 0 with size 0'')
      | x # _ \<Rightarrow> Inr x)"

text \<open>A handler ends by returning a value or by raising \<^verbatim>\<open>HTTPException\<close>;
  the framework answers a body that fails validation by itself.\<close>

datatype loc_item = Key string | Index nat

datatype 'a http_result =
    Return 'a
  | HTTPException nat string
  | RequestValidationError "(loc_item list \<times> violation) list"

section \<open>The operations of \<^verbatim>\<open>api.py\<close>\<close>

subsection \<open>Single prediction\<close>

text \<open>The body of the \<^verbatim>\<open>try\<close> block of \<^verbatim>\<open>predict_diabetes\<close>.\<close>

definition predict_diabetes_try ::
    "keras_model \<Rightarrow> PredictionInput \<Rightarrow> call_log \<Rightarrow> (py_exception + PredictionOutput) \<times> call_log" where
  "predict_diabetes_try model input_data calls =
     (let input_df = \<lparr>columns = feature_names, rows = [patient_row input_data]\<rparr>;
          (out, calls') = model_predict model input_df calls
      in case out of
           Inl e \<Rightarrow> (Inl e, calls')
         | Inr y \<Rightarrow>
             (case first_item y of
                Inl e \<Rightarrow> (Inl e, calls')
              | Inr y0 \<Rightarrow>
                  (case first_item y0 of
                     Inl e \<Rightarrow> (Inl e, calls')
                   | Inr prediction_proba \<Rightarrow>
                       (let prediction = of_bool (prediction_proba > 0.5);
                            confidence_prob = max prediction_proba (1 - prediction_proba);
                            confidence =
                              (if confidence_prob \<ge> 0.8 then ''High''
                               else if confidence_prob \<ge> 0.6 then ''Medium''
                               else ''Low'')
                        in (Inr \<lparr>prediction = prediction, probability = prediction_proba,
                                  confidence = confidence\<rparr>, calls')))))"

text \<open>\<^verbatim>\<open>except Exception as e: raise HTTPException(status_code=500, ...)\<close>.\<close>

definition predict_diabetes ::
    "keras_model \<Rightarrow> PredictionInput \<Rightarrow> call_log \<Rightarrow> PredictionOutput http_result \<times> call_log" where
  "predict_diabetes model input_data calls =
     (case predict_diabetes_try model input_data calls of
        (Inr res, calls') \<Rightarrow> (Return res, calls')
      | (Inl e, calls') \<Rightarrow> (HTTPException 500 (''Prediction error: '' @ str e), calls'))"

subsection \<open>Batch prediction\<close>

text \<open>The dictionary appended to \<^verbatim>\<open>results\<close> for the pair \<^verbatim>\<open>(i, proba)\<close>.\<close>

definition batch_entry :: "nat \<times> real \<Rightarrow> BatchEntry" where
  "batch_entry ip =
     (case ip of (i, proba) \<Rightarrow>
        (let prediction = of_bool (proba > 0.5);
             confidence_prob = max proba (1 - proba);
             confidence =
               (if confidence_prob \<ge> 0.8 then ''High''
                else if confidence_prob \<ge> 0.6 then ''Medium''
                else ''Low'')
         in \<lparr>prediction = prediction, probability = proba, confidence = confidence,
             patient_id = i + 1\<rparr>))"

text \<open>
  The body of the \<^verbatim>\<open>try\<close> block of \<^verbatim>\<open>predict_batch\<close>. \<^verbatim>\<open>flatten()\<close> of the
  two-dimensional output is the concatenation of its rows.
\<close>

definition predict_batch_try ::
    "keras_model \<Rightarrow> PredictionInput list \<Rightarrow> call_log \<Rightarrow> (py_exception + BatchOutput) \<times> call_log" where
  "predict_batch_try model patients calls =
     (if patients = [] then (Inl (ValueError ''Empty patient list''), calls)
      else if length patients > 100 then
        (Inl (ValueError ''Maximum 100 patients per request''), calls)
      else
        (let data_list = map patient_row patients;
             input_df = \<lparr>columns = feature_names, rows = data_list\<rparr>;
             (out, calls') = model_predict model input_df calls
         in case out of
              Inl e \<Rightarrow> (Inl e, calls')
            | Inr y \<Rightarrow>
                (let predictions_proba = concat y;
                     results = map batch_entry (List.enumerate 0 predictions_proba)
                 in (Inr \<lparr>total_patients = length patients, predictions = results\<rparr>, calls'))))"

text \<open>
  The two \<^verbatim>\<open>except\<close> clauses of \<^verbatim>\<open>predict_batch\<close>, in their order:
  \<^verbatim>\<open>except ValueError\<close> answers 400 with \<^verbatim>\<open>str(e)\<close>, \<^verbatim>\<open>except Exception\<close>
  answers 500.
\<close>

definition predict_batch ::
    "keras_model \<Rightarrow> PredictionInput list \<Rightarrow> call_log \<Rightarrow> BatchOutput http_result \<times> call_log" where
  "predict_batch model patients calls =
     (case predict_batch_try model patients calls of
        (Inr res, calls') \<Rightarrow> (Return res, calls')
      | (Inl (ValueError msg), calls') \<Rightarrow> (HTTPException 400 msg, calls')
      | (Inl e, calls') \<Rightarrow> (HTTPException 500 (''Batch prediction error: '' @ str e), calls'))"

subsection \<open>Validation in front of the handlers\<close>

text \<open>
  The framework validates the body against the parameter's annotation before it calls
  the handler: a record that violates a constraint is answered with the list of its
  errors, located by \<^verbatim>\<open>("body", field)\<close> or \<^verbatim>\<open>("body", index, field)\<close>, and the
  handler does not run.
\<close>

definition body_errors :: "PredictionInput \<Rightarrow> (loc_item list \<times> violation) list" where
  "body_errors x = map (\<lambda>(name, v). ([Key ''body'', Key name], v)) (validate x)"

definition list_body_errors :: "PredictionInput list \<Rightarrow> (loc_item list \<times> violation) list" where
  "list_body_errors xs =
     concat (map (\<lambda>(i, x). map (\<lambda>(name, v). ([Key ''body'', Index i, Key name], v)) (validate x))
                 (List.enumerate 0 xs))"

definition post_predict ::
    "keras_model \<Rightarrow> PredictionInput \<Rightarrow> call_log \<Rightarrow> PredictionOutput http_result \<times> call_log" where
  "post_predict model body calls =
     (if body_errors body = [] then predict_diabetes model body calls
      else (RequestValidationError (body_errors body), calls))"

definition post_predict_batch ::
    "keras_model \<Rightarrow> PredictionInput list \<Rightarrow> call_log \<Rightarrow> BatchOutput http_result \<times> call_log" where
  "post_predict_batch model body calls =
     (if list_body_errors body = [] then predict_batch model body calls
      else (RequestValidationError (list_body_errors body), calls))"

subsection \<open>Static operations and routing\<close>

record HealthStatus =
  status :: string
  model_loaded :: bool
  service :: string

definition health_check :: HealthStatus where
  "health_check =
     \<lparr>status = ''healthy'', model_loaded = True, service = ''Diabetes Prediction API''\<rparr>"

text \<open>The key \<^verbatim>\<open>output\<close> is the field \<open>output'\<close>.\<close>

record ModelInfo =
  model_name :: string
  input_features :: "string list"
  output' :: string
  framework :: string
  threshold :: real

definition model_info :: ModelInfo where
  "model_info =
     \<lparr>model_name = ''Deep Learning Diabetes Predictor'',
      input_features =
        [''Pregnancies'', ''Glucose'', ''BloodPressure'', ''SkinThickness'', ''Insulin'',
         ''BMI'', ''DiabetesPedigreeFunction'', ''Age''],
      output' = ''Diabetes probability (0-1)'',
      framework = ''TensorFlow/Keras'',
      threshold = 0.5\<rparr>"

text \<open>The four routes registered on \<^verbatim>\<open>app\<close>, and what each answers.\<close>

datatype request =
    GET_health
  | POST_predict PredictionInput
  | POST_predict_batch "PredictionInput list"
  | GET_model_info

datatype response =
    HealthResponse HealthStatus
  | PredictResponse "PredictionOutput http_result"
  | BatchResponse "BatchOutput http_result"
  | ModelInfoResponse ModelInfo

fun app :: "keras_model \<Rightarrow> request \<Rightarrow> call_log \<Rightarrow> response \<times> call_log" where
  "app model GET_health calls = (HealthResponse health_check, calls)"
| "app model (POST_predict body) calls =
     (case post_predict model body calls of (r, calls') \<Rightarrow> (PredictResponse r, calls'))"
| "app model (POST_predict_batch body) calls =
     (case post_predict_batch model body calls of (r, calls') \<Rightarrow> (BatchResponse r, calls'))"
| "app model GET_model_info calls = (ModelInfoResponse model_info, calls)"

subsection \<open>Start of the process\<close>

text \<open>
  The module body of \<^verbatim>\<open>api.py\<close> up to the handlers: the artifact is loaded from a
  fixed path, and \<^verbatim>\<open>FileNotFoundError\<close> is re-raised as \<^verbatim>\<open>RuntimeError\<close>; any
  other exception of the loader leaves the \<^verbatim>\<open>try\<close> statement as it is. The loader
  itself belongs to the Keras library and is a parameter. The result is the exception
  that ends the import, or the module with its global \<^verbatim>\<open>model\<close>.
\<close>

definition api_module :: "(string \<Rightarrow> py_exception + keras_model) \<Rightarrow> py_exception + keras_model" where
  "api_module load_model =
     (case load_model ''deep_learning_model.keras'' of
        Inl (FileNotFoundError _) \<Rightarrow>
          Inl (RuntimeError
            ''Model file 'deep_learning_model.keras' not found. Please ensure it's in the root directory.'')
      | Inl e \<Rightarrow> Inl e
      | Inr model \<Rightarrow> Inr model)"

text \<open>
  A request reaches a handler only in a process whose import of the module has ended
  without an exception; a process whose import raised has no \<^verbatim>\<open>app\<close> and answers
  nothing.
\<close>

definition serve ::
    "py_exception + keras_model \<Rightarrow> request \<Rightarrow> call_log \<Rightarrow> (response \<times> call_log) option" where
  "serve imported req calls =
     (case imported of Inl e \<Rightarrow> None | Inr model \<Rightarrow> Some (app model req calls))"




section \<open>The form of \<^verbatim>\<open>dl_app.py\<close>\<close>

text \<open>
  What the form renders: \<^verbatim>\<open>st.write\<close> of a text, and the \<^verbatim>\<open>st.error\<close> or
  \<^verbatim>\<open>st.success\<close> box, which carries the number its message prints.
\<close>

datatype st_element = st_write string | st_error real | st_success real

text \<open>
  The body of the form for the eight slider values. Nothing is caught here: an
  exception of the model call or of the indexing ends the script run.
\<close>

definition dl_app ::
    "keras_model \<Rightarrow> bool \<Rightarrow> real \<Rightarrow> real \<Rightarrow> real \<Rightarrow> real \<Rightarrow> real \<Rightarrow> real \<Rightarrow> real \<Rightarrow> real \<Rightarrow> call_log
      \<Rightarrow> (py_exception + st_element list) \<times> call_log" where
  "dl_app model submitted v_pregnancies v_glucose v_blood_pressure v_skin_thickness v_insulin
      v_bmi v_diabetes_pedigree_function v_age calls =
     (if submitted then
        (let input_data =
               \<lparr>columns = feature_names,
                rows = [[v_pregnancies, v_glucose, v_blood_pressure, v_skin_thickness,
                         v_insulin, v_bmi, v_diabetes_pedigree_function, v_age]]\<rparr>;
             (out, calls') = model_predict model input_data calls
         in case out of
              Inl e \<Rightarrow> (Inl e, calls')
            | Inr y \<Rightarrow>
                (case first_item y of
                   Inl e \<Rightarrow> (Inl e, calls')
                 | Inr y0 \<Rightarrow>
                     (case first_item y0 of
                        Inl e \<Rightarrow> (Inl e, calls')
                      | Inr prediction_proba \<Rightarrow>
                          (let prediction = (of_bool (prediction_proba > 0.5) :: int)
                           in (Inr (st_write ''### Prediction Result:'' #
                                     (if prediction = 1 then [st_error prediction_proba]
                                      else [st_success (1 - prediction_proba)])),
                               calls')))))
      else (Inr [], calls))"

subsection \<open>Stand-ins for the opaque parts\<close>

text \<open>
  Concrete models for the examples: one that scores every row with the same
  probability (one output row per input row, one column), and one whose call raises.
\<close>

definition constant_model :: "real \<Rightarrow> keras_model" where
  "constant_model p df = Inr (map (\<lambda>r. [p]) (rows df))"

definition raising_model :: "py_exception \<Rightarrow> keras_model" where
  "raising_model e df = Inl e"

text \<open>A loader for a directory that holds no file at all, and one that holds the artifact.\<close>

definition load_model_absent :: "string \<Rightarrow> py_exception + keras_model" where
  "load_model_absent path = Inl (FileNotFoundError (''No such file or directory: '' @ path))"

definition load_model_present :: "keras_model \<Rightarrow> string \<Rightarrow> py_exception + keras_model" where
  "load_model_present m path =
     (if path = ''deep_learning_model.keras'' then Inr m
      else Inl (FileNotFoundError (''No such file or directory: '' @ path)))"




subsection \<open>Vocabulary of the statements\<close>

text \<open>The data frame both handlers build from the records they are given, in order.\<close>

definition frame_of :: "PredictionInput list \<Rightarrow> DataFrame" where
  "frame_of xs = \<lparr>columns = feature_names, rows = map patient_row xs\<rparr>"


text \<open>Client-class and server-class status codes.\<close>

definition client_error :: "nat \<Rightarrow> bool" where
  "client_error code = (400 \<le> code \<and> code < 500)"

definition server_error :: "nat \<Rightarrow> bool" where
  "server_error code = (500 \<le> code \<and> code < 600)"



text \<open>
  A model that scores every row by its second column (the glucose level) divided by
  200: a stand-in whose outputs differ from row to row.
\<close>

definition glucose_model :: keras_model where
  "glucose_model df = Inr (map (\<lambda>r. [r ! 1 / 200]) (rows df))"

section \<open>Properties\<close>

subsection \<open>What the handlers compute when the model returns\<close>

lemma predict_diabetes_try_Inr:
  assumes "model (frame_of [x]) = Inr ((p # r) # rs)"
  shows "predict_diabetes_try model x calls =
    (Inr \<lparr>prediction = of_bool (p > 0.5), probability = p,
          confidence = (if max p (1 - p) \<ge> 0.8 then ''High''
                        else if max p (1 - p) \<ge> 0.6 then ''Medium'' else ''Low'')\<rparr>,
     calls @ [frame_of [x]])"
  using assms
  by (simp add: predict_diabetes_try_def model_predict_def frame_of_def first_item_def Let_def)

lemma predict_diabetes_Return:
  assumes "model (frame_of [x]) = Inr ((p # r) # rs)"
  shows "predict_diabetes model x calls =
    (Return \<lparr>prediction = of_bool (p > 0.5), probability = p,
          confidence = (if max p (1 - p) \<ge> 0.8 then ''High''
                        else if max p (1 - p) \<ge> 0.6 then ''Medium'' else ''Low'')\<rparr>,
     calls @ [frame_of [x]])"
  using predict_diabetes_try_Inr [of model x p r rs calls] assms
  by (simp add: predict_diabetes_def)

lemma dl_app_Inr:
  assumes "model \<lparr>columns = feature_names, rows = [[v1, v2, v3, v4, v5, v6, v7, v8]]\<rparr>
             = Inr ((p # r) # rs)"
  shows "dl_app model True v1 v2 v3 v4 v5 v6 v7 v8 calls =
    (Inr [st_write ''### Prediction Result:'', if p > 0.5 then st_error p else st_success (1 - p)],
     calls @ [\<lparr>columns = feature_names, rows = [[v1, v2, v3, v4, v5, v6, v7, v8]]\<rparr>])"
  using assms
  by (simp add: dl_app_def model_predict_def first_item_def Let_def)


subsection \<open>The decision threshold\<close>

text \<open>
  Claim C1. Whenever the model returns an array whose first entry is \<open>p\<close>, the label of
  the single prediction is 1 if \<open>p > 0.5\<close> and 0 otherwise, so \<open>p = 0.5\<close> gives 0. The
  form of \<^verbatim>\<open>dl_app.py\<close> decides by the same comparison: it shows the error box (label
  1) exactly when \<open>p > 0.5\<close>.
\<close>

theorem single_label_threshold:
  "(model (frame_of [x]) = Inr ((p # r) # rs) \<longrightarrow>
      (\<exists>out. fst (predict_diabetes model x calls) = Return out
         \<and> prediction out = (if p > 0.5 then 1 else 0)))
   \<and> (model \<lparr>columns = feature_names, rows = [[v1, v2, v3, v4, v5, v6, v7, v8]]\<rparr>
        = Inr ((p # r) # rs) \<longrightarrow>
      fst (dl_app model True v1 v2 v3 v4 v5 v6 v7 v8 calls) =
        Inr [st_write ''### Prediction Result:'',
             if p > 0.5 then st_error p else st_success (1 - p)])"
  by (simp add: predict_diabetes_Return dl_app_Inr)

theorem single_label_threshold_witness:
  "(\<exists>out. fst (predict_diabetes (constant_model 0.5) example_input []) = Return out
      \<and> prediction out = 0)
   \<and> fst (dl_app (constant_model 0.5) True 3 117 72 29 125 32.3 0.3725 29 []) =
        Inr [st_write ''### Prediction Result:'', st_success 0.5]"
  using single_label_threshold [of "constant_model 0.5" example_input "0.5" "[]" "[]" "[]"
      3 117 72 29 125 "32.3" "0.3725" 29]
  by (simp add: constant_model_def frame_of_def)

subsection \<open>What the batch handler computes when the model returns\<close>

lemma predict_batch_try_Inr:
  assumes "patients \<noteq> []" and "length patients \<le> 100"
    and "model (frame_of patients) = Inr y"
  shows "predict_batch_try model patients calls =
    (Inr \<lparr>total_patients = length patients,
          predictions = map batch_entry (List.enumerate 0 (concat y))\<rparr>,
     calls @ [frame_of patients])"
  using assms
  by (simp add: predict_batch_try_def model_predict_def frame_of_def Let_def)

lemma predict_batch_Return:
  assumes "patients \<noteq> []" and "length patients \<le> 100"
    and "model (frame_of patients) = Inr y"
  shows "predict_batch model patients calls =
    (Return \<lparr>total_patients = length patients,
          predictions = map batch_entry (List.enumerate 0 (concat y))\<rparr>,
     calls @ [frame_of patients])"
  using predict_batch_try_Inr [of patients model y calls] assms
  by (simp add: predict_batch_def)

lemma batch_entry_prediction: "prediction (batch_entry (i, p)) = of_bool (p > 0.5)"
  by (simp add: batch_entry_def Let_def)

lemma batch_entry_probability: "probability (batch_entry (i, p)) = p"
  by (simp add: batch_entry_def Let_def)

lemma batch_entry_patient_id: "patient_id (batch_entry (i, p)) = i + 1"
  by (simp add: batch_entry_def Let_def)


lemma constant_model_frame:
  "constant_model p (frame_of xs) = Inr (map (\<lambda>r. [p]) xs)"
  by (simp add: constant_model_def frame_of_def)

subsection \<open>The confidence tier\<close>



subsection \<open>Validation of the fields\<close>
















subsection \<open>Size limits of a batch\<close>

lemma predict_batch_empty:
  "predict_batch model [] calls = (HTTPException 400 ''Empty patient list'', calls)"
  by (simp add: predict_batch_def predict_batch_try_def)

lemma predict_batch_too_large:
  assumes "length patients > 100"
  shows "predict_batch model patients calls =
    (HTTPException 400 ''Maximum 100 patients per request'', calls)"
proof -
  from assms have "patients \<noteq> []" by auto
  with assms show ?thesis
    by (simp add: predict_batch_def predict_batch_try_def)
qed

lemma predict_batch_try_Inl:
  assumes "patients \<noteq> []" and "length patients \<le> 100"
    and "model (frame_of patients) = Inl e"
  shows "predict_batch_try model patients calls = (Inl e, calls @ [frame_of patients])"
  using assms
  by (simp add: predict_batch_try_def model_predict_def frame_of_def Let_def)

lemma predict_batch_calls_model_once:
  assumes "patients \<noteq> []" and "length patients \<le> 100"
  shows "snd (predict_batch model patients calls) = calls @ [frame_of patients]"
proof (cases "model (frame_of patients)")
  case (Inl e)
  then have "predict_batch_try model patients calls = (Inl e, calls @ [frame_of patients])"
    using assms by (rule_tac predict_batch_try_Inl)
  then show ?thesis
    by (cases e) (simp_all add: predict_batch_def)
next
  case (Inr y)
  then show ?thesis
    using predict_batch_Return [of patients model y calls] assms by simp
qed

text \<open>
  Claim C4. The batch operation answers the empty list with the client error
  \<^verbatim>\<open>Empty patient list\<close> and a list of more than 100 records with the client error
  \<^verbatim>\<open>Maximum 100 patients per request\<close>, in both cases without a model call. For a
  list of 1 to 100 records it invokes the model exactly once, on the frame of the whole
  batch, and returns the envelope whenever the model call returns. So 100 records pass
  and 101 records fail.
\<close>

theorem batch_size_limits:
  "(patients = [] \<longrightarrow>
      predict_batch model patients calls = (HTTPException 400 ''Empty patient list'', calls))
   \<and> (length patients > 100 \<longrightarrow>
      predict_batch model patients calls =
        (HTTPException 400 ''Maximum 100 patients per request'', calls))
   \<and> (1 \<le> length patients \<and> length patients \<le> 100 \<longrightarrow>
      snd (predict_batch model patients calls) = calls @ [frame_of patients]
      \<and> (\<forall>y. model (frame_of patients) = Inr y \<longrightarrow>
           (\<exists>res. fst (predict_batch model patients calls) = Return res
              \<and> total_patients res = length patients)))"
proof (intro conjI impI allI)
  assume "patients = []"
  then show "predict_batch model patients calls = (HTTPException 400 ''Empty patient list'', calls)"
    by (simp add: predict_batch_empty)
next
  assume "length patients > 100"
  then show "predict_batch model patients calls =
        (HTTPException 400 ''Maximum 100 patients per request'', calls)"
    by (rule predict_batch_too_large)
next
  assume "1 \<le> length patients \<and> length patients \<le> 100"
  then have "patients \<noteq> []" and "length patients \<le> 100" by auto
  then show "snd (predict_batch model patients calls) = calls @ [frame_of patients]"
    by (rule predict_batch_calls_model_once)
next
  fix y
  assume "1 \<le> length patients \<and> length patients \<le> 100"
    and y: "model (frame_of patients) = Inr y"
  then have "patients \<noteq> []" and "length patients \<le> 100" by auto
  with y show "\<exists>res. fst (predict_batch model patients calls) = Return res
              \<and> total_patients res = length patients"
    using predict_batch_Return [of patients model y calls] by simp
qed

theorem batch_size_limits_witness:
  "predict_batch (constant_model 0.7) [] [] = (HTTPException 400 ''Empty patient list'', [])
   \<and> predict_batch (constant_model 0.7) (replicate 101 example_input) [] =
        (HTTPException 400 ''Maximum 100 patients per request'', [])
   \<and> snd (predict_batch (constant_model 0.7) (replicate 100 example_input) []) =
        [frame_of (replicate 100 example_input)]
   \<and> (\<exists>res. fst (predict_batch (constant_model 0.7) (replicate 100 example_input) []) = Return res
         \<and> total_patients res = 100)"
proof -
  have a: "predict_batch (constant_model 0.7) [] [] = (HTTPException 400 ''Empty patient list'', [])"
    using batch_size_limits [of "[]" "constant_model 0.7" "[]"] by simp
  have b: "predict_batch (constant_model 0.7) (replicate 101 example_input) [] =
        (HTTPException 400 ''Maximum 100 patients per request'', [])"
    using batch_size_limits [of "replicate 101 example_input" "constant_model 0.7" "[]"] by simp
  note full = batch_size_limits [of "replicate 100 example_input" "constant_model 0.7" "[]"]
  have c: "snd (predict_batch (constant_model 0.7) (replicate 100 example_input) []) =
        [frame_of (replicate 100 example_input)]"
    using full by simp
  have d: "\<exists>res. fst (predict_batch (constant_model 0.7) (replicate 100 example_input) []) = Return res
         \<and> total_patients res = 100"
    using full constant_model_frame [of "0.7" "replicate 100 example_input"] by simp
  from a b c d show ?thesis by blast
qed


subsection \<open>Order and identifiers of the batch results\<close>

lemma truncate_batch_entry:
  "PredictionOutput.truncate (batch_entry (i, p)) =
     \<lparr>prediction = of_bool (p > 0.5), probability = p,
      confidence = (if max p (1 - p) \<ge> 0.8 then ''High''
                    else if max p (1 - p) \<ge> 0.6 then ''Medium'' else ''Low'')\<rparr>"
  by (simp add: batch_entry_def Let_def PredictionOutput.truncate_def)

lemma batch_entry_as_single:
  assumes "m (frame_of [x]) = Inr ((p # r) # rs)"
  shows "fst (predict_diabetes m x c) = Return (PredictionOutput.truncate (batch_entry (i, p)))"
  using predict_diabetes_Return [of m x p r rs c] assms
  by (simp only: truncate_batch_entry fst_conv)

text \<open>
  Claim C5. For a non-empty batch of at most 100 records on which the model returns one
  probability per record, the model is called once on the frame whose rows are the
  records in input order, the result has one entry per record, the entry at position
  \<open>i\<close> (counted from 0) carries the identifier \<open>i + 1\<close> and the \<open>i\<close>-th probability,
  and its label, probability and confidence are those the single prediction returns
  for that probability.
\<close>

theorem batch_order_and_ids:
  assumes "patients \<noteq> []" and "length patients \<le> 100"
    and "model (frame_of patients) = Inr y"
    and "length (concat y) = length patients"
  shows "\<exists>res. predict_batch model patients calls =
            (Return res,
             calls @ [\<lparr>columns = feature_names, rows = map patient_row patients\<rparr>])
     \<and> total_patients res = length patients
     \<and> length (predictions res) = length patients
     \<and> (\<forall>i < length patients.
           patient_id (predictions res ! i) = i + 1
           \<and> probability (predictions res ! i) = concat y ! i
           \<and> (\<forall>m x c r rs. m (frame_of [x]) = Inr ((concat y ! i # r) # rs) \<longrightarrow>
                 fst (predict_diabetes m x c) =
                   Return (PredictionOutput.truncate (predictions res ! i))))"
proof -
  let ?res = "\<lparr>total_patients = length patients,
               predictions = map batch_entry (List.enumerate 0 (concat y))\<rparr>"
  have run: "predict_batch model patients calls =
      (Return ?res, calls @ [\<lparr>columns = feature_names, rows = map patient_row patients\<rparr>])"
    using predict_batch_Return [of patients model y calls] assms(1-3)
    by (simp add: frame_of_def)
  have len: "length (predictions ?res) = length patients"
    using assms(4) by simp
  have each: "patient_id (predictions ?res ! i) = i + 1
      \<and> probability (predictions ?res ! i) = concat y ! i
      \<and> (\<forall>m x c r rs. m (frame_of [x]) = Inr ((concat y ! i # r) # rs) \<longrightarrow>
            fst (predict_diabetes m x c) =
              Return (PredictionOutput.truncate (predictions ?res ! i)))"
    if "i < length patients" for i
  proof -
    from that assms(4) have nth: "predictions ?res ! i = batch_entry (i, concat y ! i)"
      by (simp add: nth_enumerate_eq)
    show ?thesis
      unfolding nth
      by (simp add: batch_entry_patient_id batch_entry_probability batch_entry_as_single)
  qed
  from run len each show ?thesis
    by (intro exI [of _ ?res]) simp
qed


lemma glucose_model_frame:
  "glucose_model (frame_of xs) = Inr (map (\<lambda>x. [glucose x / 200]) xs)"
  by (simp add: glucose_model_def frame_of_def patient_row_def)

theorem batch_order_and_ids_witness:
  "\<exists>res. predict_batch glucose_model [example_input, example_input\<lparr>glucose := 180\<rparr>] [] =
            (Return res,
             [\<lparr>columns = feature_names,
               rows = [patient_row example_input,
                       patient_row (example_input\<lparr>glucose := 180\<rparr>)]\<rparr>])
     \<and> total_patients res = 2
     \<and> length (predictions res) = 2
     \<and> patient_id (predictions res ! 0) = 1
     \<and> probability (predictions res ! 0) = 117 / 200
     \<and> patient_id (predictions res ! 1) = 2
     \<and> probability (predictions res ! 1) = 0.9
     \<and> fst (predict_diabetes glucose_model (example_input\<lparr>glucose := 180\<rparr>) []) =
         Return (PredictionOutput.truncate (predictions res ! 1))"
proof -
  let ?ps = "[example_input, example_input\<lparr>glucose := 180\<rparr>]"
  have y: "glucose_model (frame_of ?ps) = Inr [[117 / 200], [0.9]]"
    by (simp add: glucose_model_frame example_input_def)
  have single: "glucose_model (frame_of [example_input\<lparr>glucose := 180\<rparr>]) = Inr (([0.9 :: real] ! 0 # []) # [])"
    by (simp add: glucose_model_frame example_input_def)
  from batch_order_and_ids [of ?ps glucose_model "[[117 / 200], [0.9]]" "[]", OF _ _ y]
  obtain res where
    run: "predict_batch glucose_model ?ps [] =
            (Return res, [] @ [\<lparr>columns = feature_names, rows = map patient_row ?ps\<rparr>])"
    and tot: "total_patients res = length ?ps"
    and len: "length (predictions res) = length ?ps"
    and each: "\<forall>i < length ?ps.
           patient_id (predictions res ! i) = i + 1
           \<and> probability (predictions res ! i) = concat [[117 / 200], [0.9]] ! i
           \<and> (\<forall>m x c r rs. m (frame_of [x]) = Inr ((concat [[117 / 200], [0.9]] ! i # r) # rs) \<longrightarrow>
                 fst (predict_diabetes m x c) =
                   Return (PredictionOutput.truncate (predictions res ! i)))"
    by auto
  from each have e0: "patient_id (predictions res ! 0) = 1"
      "probability (predictions res ! 0) = 117 / 200"
    by simp_all
  from each have e1: "patient_id (predictions res ! 1) = 2"
      "probability (predictions res ! 1) = 0.9"
    by simp_all
  from each have "\<forall>m x c r rs. m (frame_of [x]) = Inr ((0.9 # r) # rs) \<longrightarrow>
                 fst (predict_diabetes m x c) =
                   Return (PredictionOutput.truncate (predictions res ! 1))"
    by simp
  with single have s1: "fst (predict_diabetes glucose_model (example_input\<lparr>glucose := 180\<rparr>) []) =
         Return (PredictionOutput.truncate (predictions res ! 1))"
    by simp
  from run tot len e0 e1 s1 show ?thesis
    by (intro exI [of _ res]) simp
qed


subsection \<open>Exceptions of the model call\<close>

lemma predict_diabetes_model_raises:
  assumes "model (frame_of [x]) = Inl e"
  shows "predict_diabetes model x calls =
    (HTTPException 500 (''Prediction error: '' @ str e), calls @ [frame_of [x]])"
  using assms
  by (simp add: predict_diabetes_def predict_diabetes_try_def model_predict_def frame_of_def Let_def)

lemma predict_batch_model_raises_ValueError:
  assumes "patients \<noteq> []" and "length patients \<le> 100"
    and "model (frame_of patients) = Inl (ValueError msg)"
  shows "predict_batch model patients calls =
    (HTTPException 400 msg, calls @ [frame_of patients])"
  using predict_batch_try_Inl [of patients model "ValueError msg" calls] assms
  by (simp add: predict_batch_def)

lemma predict_batch_model_raises_other:
  assumes "patients \<noteq> []" and "length patients \<le> 100"
    and "model (frame_of patients) = Inl e" and "\<forall>msg. e \<noteq> ValueError msg"
  shows "predict_batch model patients calls =
    (HTTPException 500 (''Batch prediction error: '' @ str e), calls @ [frame_of patients])"
  using predict_batch_try_Inl [of patients model e calls] assms
  by (cases e) (simp_all add: predict_batch_def)

lemma raising_model_frame: "raising_model e df = Inl e"
  by (simp add: raising_model_def)

text \<open>
  Claim C6 asks that an exception of the model call is always reported as a server
  error carrying its message. The single handler does so for every exception. The
  batch handler does not when the exception is a \<^verbatim>\<open>ValueError\<close>: the clause
  \<^verbatim>\<open>except ValueError\<close>, written for the two size checks, comes first and answers 400.
  The theorem evaluates both handlers on a model whose call raises \<^verbatim>\<open>ValueError\<close>.
\<close>

theorem batch_reports_model_ValueError_as_400:
  "predict_batch (raising_model (ValueError ''expected shape=(None, 8), found shape=(None, 7)''))
       [example_input] [] =
     (HTTPException 400 ''expected shape=(None, 8), found shape=(None, 7)'',
      [frame_of [example_input]])
   \<and> client_error 400
   \<and> predict_diabetes (raising_model (ValueError ''expected shape=(None, 8), found shape=(None, 7)''))
       example_input [] =
     (HTTPException 500 ''Prediction error: expected shape=(None, 8), found shape=(None, 7)'',
      [frame_of [example_input]])
   \<and> server_error 500"
  by (simp add: predict_batch_model_raises_ValueError predict_diabetes_model_raises
        raising_model_frame client_error_def server_error_def)

subsection \<open>Monotonicity and boundaries of the tier\<close>








subsection \<open>Start of the process without the artifact\<close>

lemma api_module_Inl:
  assumes "load_model ''deep_learning_model.keras'' = Inl e"
  shows "\<exists>e'. api_module load_model = Inl e'"
  using assms by (cases e) (simp_all add: api_module_def)

lemma api_module_FileNotFoundError:
  assumes "load_model ''deep_learning_model.keras'' = Inl (FileNotFoundError msg)"
  shows "\<exists>text. api_module load_model = Inl (RuntimeError text)"
  using assms by (simp add: api_module_def)

lemma api_module_Inr:
  "(api_module load_model = Inr model) = (load_model ''deep_learning_model.keras'' = Inr model)"
  by (simp add: api_module_def split: sum.splits py_exception.splits)

lemma serve_Some:
  "(serve imported req calls = Some r) = (\<exists>model. imported = Inr model \<and> r = app model req calls)"
  by (cases imported) (auto simp add: serve_def)

text \<open>
  Claim C8. If loading the artifact from its fixed path raises, whatever the exception,
  the import of the module ends with an exception and the process answers no request;
  for \<^verbatim>\<open>FileNotFoundError\<close> the exception of the import is the \<^verbatim>\<open>RuntimeError\<close>
  of the module. Every request that is answered, on any route, is answered by a handler
  of a module whose model was loaded from that path.
\<close>

theorem startup_requires_model:
  "(load_model ''deep_learning_model.keras'' = Inl e \<longrightarrow>
      (\<exists>e'. api_module load_model = Inl e') \<and> serve (api_module load_model) req calls = None)
   \<and> (load_model ''deep_learning_model.keras'' = Inl (FileNotFoundError msg) \<longrightarrow>
      (\<exists>text. api_module load_model = Inl (RuntimeError text)))
   \<and> (serve (api_module load_model) req calls = Some r \<longrightarrow>
      (\<exists>model. load_model ''deep_learning_model.keras'' = Inr model \<and> r = app model req calls))"
proof (intro conjI impI)
  assume h: "load_model ''deep_learning_model.keras'' = Inl e"
  then show "\<exists>e'. api_module load_model = Inl e'"
    by (rule api_module_Inl)
  then show "serve (api_module load_model) req calls = None"
    by (auto simp add: serve_def)
next
  assume "load_model ''deep_learning_model.keras'' = Inl (FileNotFoundError msg)"
  then show "\<exists>text. api_module load_model = Inl (RuntimeError text)"
    by (rule api_module_FileNotFoundError)
next
  assume "serve (api_module load_model) req calls = Some r"
  then show "\<exists>model. load_model ''deep_learning_model.keras'' = Inr model \<and> r = app model req calls"
    by (simp add: serve_Some api_module_Inr)
qed

theorem startup_requires_model_witness:
  "(\<exists>e'. api_module load_model_absent = Inl e')
   \<and> serve (api_module load_model_absent) (POST_predict example_input) [] = None
   \<and> (\<exists>text. api_module load_model_absent = Inl (RuntimeError text))
   \<and> serve (api_module (load_model_present (constant_model 0.7))) GET_health [] =
       Some (HealthResponse health_check, [])
   \<and> load_model_present (constant_model 0.7) ''deep_learning_model.keras'' = Inr (constant_model 0.7)"
proof -
  note absent = startup_requires_model [of load_model_absent
      "FileNotFoundError ''No such file or directory: deep_learning_model.keras''"
      "POST_predict example_input" "[]"
      "''No such file or directory: deep_learning_model.keras''"]
  have a: "(\<exists>e'. api_module load_model_absent = Inl e')
      \<and> serve (api_module load_model_absent) (POST_predict example_input) [] = None"
    using absent [THEN conjunct1] by (simp add: load_model_absent_def)
  have b: "\<exists>text. api_module load_model_absent = Inl (RuntimeError text)"
    using absent [THEN conjunct2, THEN conjunct1] by (simp add: load_model_absent_def)
  have run: "serve (api_module (load_model_present (constant_model 0.7))) GET_health [] =
       Some (HealthResponse health_check, [])"
    by (simp add: serve_def api_module_def load_model_present_def)
  have c: "load_model_present (constant_model 0.7) ''deep_learning_model.keras'' = Inr (constant_model 0.7)"
    using startup_requires_model [of "load_model_present (constant_model 0.7)" _ GET_health "[]" _
        "(HealthResponse health_check, [])", THEN conjunct2, THEN conjunct2] run
    by (simp add: load_model_present_def)
  from a b run c show ?thesis by blast
qed

subsection \<open>Determinism of the single prediction\<close>




subsection \<open>Configuration from the environment\<close>





end
